theory Spec2Isabelle
  imports Complex_Main
begin

section \<open>SpeechService: the serialising speech queue\<close>

text \<open>
  The service keeps three fields (\<open>isSpeaking\<close>, \<open>queue\<close>, \<open>isProcessingQueue\<close>) and hands
  one utterance at a time to the text-to-speech device through \<open>Speech.speak\<close>. The device is
  outside the repository; it is modelled by what the service can observe of it:
  \<^item> \<open>device\<close>: the utterances handed to \<open>Speech.speak\<close> and not yet finished, oldest first;
  \<^item> a parameter \<open>thr\<close>: whether \<open>Speech.speak\<close> throws for an utterance (and with which
    message), the case the \<open>catch\<close> block of \<open>processQueue\<close> handles;
  \<^item> the events \<open>DeviceDone\<close> and \<open>DeviceError\<close>: the device finishes its oldest utterance and
    invokes the merged \<open>onDone\<close> / \<open>onError\<close> that \<open>processQueue\<close> registered for it;
  \<^item> \<open>Speech.stop\<close> discards what the device holds and invokes neither of the two (the device
    reports a stop through \<open>onStopped\<close>, which \<open>processQueue\<close> never registers).
  The callbacks of the caller (\<open>options.onDone\<close>, \<open>options.onError\<close>) are optional; they are
  recorded in \<open>userCallbacks\<close> when present and do not call back into the service.
\<close>

record utterance =
  utteranceText :: string
  hasOnDone :: bool
  hasOnError :: bool

datatype outcome = Done | Failed string

record speech_service =
  isSpeaking :: bool
  queue :: "utterance list"
  isProcessingQueue :: bool
  device :: "utterance list"
  completions :: "(utterance \<times> outcome) list"
  userCallbacks :: "(utterance \<times> outcome) list"

definition speech_init :: speech_service where
  "speech_init = \<lparr> isSpeaking = False, queue = [], isProcessingQueue = False,
                   device = [], completions = [], userCallbacks = [] \<rparr>"

text \<open>The merged \<open>onDone\<close> of an utterance, up to its call of \<open>processQueue\<close>.\<close>

definition mergedOnDone :: "utterance \<Rightarrow> speech_service \<Rightarrow> speech_service" where
  "mergedOnDone u s =
     s\<lparr> isSpeaking := False,
        completions := completions s @ [(u, Done)],
        userCallbacks := (if hasOnDone u then userCallbacks s @ [(u, Done)] else userCallbacks s) \<rparr>"

text \<open>The merged \<open>onError\<close> (and the \<open>catch\<close> block, which does the same), up to \<open>processQueue\<close>.\<close>

definition mergedOnError :: "utterance \<Rightarrow> string \<Rightarrow> speech_service \<Rightarrow> speech_service" where
  "mergedOnError u e s =
     s\<lparr> isSpeaking := False,
        completions := completions s @ [(u, Failed e)],
        userCallbacks := (if hasOnError u then userCallbacks s @ [(u, Failed e)] else userCallbacks s) \<rparr>"

function processQueue :: "(utterance \<Rightarrow> string option) \<Rightarrow> speech_service \<Rightarrow> speech_service" where
  "processQueue thr s =
     (if queue s = [] then s\<lparr> isProcessingQueue := False \<rparr>
      else
        let u = hd (queue s);
            s1 = s\<lparr> isProcessingQueue := True, queue := tl (queue s), isSpeaking := True \<rparr>
        in (case thr u of
              None \<Rightarrow> s1\<lparr> device := device s1 @ [u] \<rparr>
            | Some e \<Rightarrow> processQueue thr (mergedOnError u e s1)))"
  by pat_completeness auto
termination
  by (relation "measure (\<lambda>(thr, s). length (queue s))") (auto simp: mergedOnError_def)

declare processQueue.simps [simp del]

definition speak :: "(utterance \<Rightarrow> string option) \<Rightarrow> utterance \<Rightarrow> speech_service \<Rightarrow> speech_service" where
  "speak thr u s =
     (let s1 = s\<lparr> queue := queue s @ [u] \<rparr>
      in if \<not> isProcessingQueue s1 then processQueue thr s1 else s1)"

definition stop :: "speech_service \<Rightarrow> speech_service" where
  "stop s = s\<lparr> device := [], isSpeaking := False, queue := [] \<rparr>"

text \<open>The device finishes its oldest utterance; with nothing outstanding there is nothing to finish.\<close>

definition deviceDone :: "(utterance \<Rightarrow> string option) \<Rightarrow> speech_service \<Rightarrow> speech_service" where
  "deviceDone thr s =
     (case device s of
        [] \<Rightarrow> s
      | u # rest \<Rightarrow> processQueue thr (mergedOnDone u (s\<lparr> device := rest \<rparr>)))"

definition deviceError :: "(utterance \<Rightarrow> string option) \<Rightarrow> string \<Rightarrow> speech_service \<Rightarrow> speech_service" where
  "deviceError thr e s =
     (case device s of
        [] \<Rightarrow> s
      | u # rest \<Rightarrow> processQueue thr (mergedOnError u e (s\<lparr> device := rest \<rparr>)))"

datatype speech_event = Speak utterance | DeviceDone | DeviceError string | Stop

fun speech_step :: "(utterance \<Rightarrow> string option) \<Rightarrow> speech_service \<Rightarrow> speech_event \<Rightarrow> speech_service" where
  "speech_step thr s (Speak u) = speak thr u s"
| "speech_step thr s DeviceDone = deviceDone thr s"
| "speech_step thr s (DeviceError e) = deviceError thr e s"
| "speech_step thr s Stop = stop s"

definition speech_run :: "(utterance \<Rightarrow> string option) \<Rightarrow> speech_event list \<Rightarrow> speech_service \<Rightarrow> speech_service" where
  "speech_run thr es s = foldl (speech_step thr) s es"






section \<open>Numbers and strings of the source language\<close>

text \<open>
  A JavaScript \<open>number\<close> is modelled as a real (no rounding error, no NaN, no infinities), a
  \<open>number\<close> that the code only ever uses as an integer (an index, a \<open>Math.round\<close> result,
  a \<open>Date.now()\<close> reading) as an \<open>int\<close>. \<open>Math.round\<close> rounds to the nearest integer with
  ties upwards, \<open>\<lfloor>x + 1/2\<rfloor>\<close>, which is \<^const>\<open>round\<close>.
\<close>

definition atan2 :: "real \<Rightarrow> real \<Rightarrow> real" where
  \<comment> \<open>\<open>Math.atan2(y, x)\<close>: the angle of the point \<open>(x, y)\<close>, in \<open>[-\<pi>, \<pi>]\<close>.\<close>
  "atan2 y x =
     (if 0 < x then arctan (y / x)
      else if x < 0 \<and> 0 \<le> y then arctan (y / x) + pi
      else if x < 0 \<and> y < 0 then arctan (y / x) - pi
      else if 0 < y then pi / 2
      else if y < 0 then - (pi / 2)
      else 0)"

definition trunc :: "real \<Rightarrow> int" where
  "trunc r = (if 0 \<le> r then \<lfloor>r\<rfloor> else \<lceil>r\<rceil>)"

definition jsRem :: "real \<Rightarrow> real \<Rightarrow> real" where
  \<comment> \<open>\<open>x % y\<close> on numbers: the remainder has the sign of the dividend.\<close>
  "jsRem a b = a - b * of_int (trunc (a / b))"

definition jsRemInt :: "int \<Rightarrow> int \<Rightarrow> int" where
  \<comment> \<open>\<open>x % y\<close> on integral numbers.\<close>
  "jsRemInt a b = (if 0 \<le> a then a mod \<bar>b\<bar> else - ((- a) mod \<bar>b\<bar>))"

definition jsIndex :: "'a list \<Rightarrow> int \<Rightarrow> 'a option" where
  \<comment> \<open>\<open>xs[i]\<close>: \<open>undefined\<close> (here \<open>None\<close>) outside the array.\<close>
  "jsIndex xs i = (if 0 \<le> i \<and> i < int (length xs) then Some (xs ! nat i) else None)"

definition digitChar :: "nat \<Rightarrow> char" where
  "digitChar d = ''0123456789'' ! d"

fun natToString :: "nat \<Rightarrow> string" where
  "natToString n = (if n < 10 then [digitChar n] else natToString (n div 10) @ [digitChar (n mod 10)])"

declare natToString.simps [simp del]

definition intToString :: "int \<Rightarrow> string" where
  "intToString i = (if i < 0 then CHR ''-'' # natToString (nat (- i)) else natToString (nat i))"

definition lowerChar :: "char \<Rightarrow> char" where
  \<comment> \<open>\<open>toLowerCase\<close> on one character of the ASCII range.\<close>
  "lowerChar c =
     (case map_of (zip ''ABCDEFGHIJKLMNOPQRSTUVWXYZ'' ''abcdefghijklmnopqrstuvwxyz'') c of
        None \<Rightarrow> c
      | Some l \<Rightarrow> l)"

definition toLowerCase :: "string \<Rightarrow> string" where
  "toLowerCase str = map lowerChar str"

section \<open>LocationService: the geodesic utilities\<close>

record LocationCoordinates =
  latitude :: real
  longitude :: real
  altitude :: "real option"
  accuracy :: "real option"
  altitudeAccuracy :: "real option"
  heading :: "real option"
  speed :: "real option"

definition calculateDistance :: "real \<Rightarrow> real \<Rightarrow> real \<Rightarrow> real \<Rightarrow> real" where
  "calculateDistance lat1 lon1 lat2 lon2 =
     (if lat1 = lat2 \<and> lon1 = lon2 then 0
      else
        let R = 6371000;
            phi1 = (lat1 * pi) / 180;
            phi2 = (lat2 * pi) / 180;
            dphi = ((lat2 - lat1) * pi) / 180;
            dlam = ((lon2 - lon1) * pi) / 180;
            a = sin (dphi / 2) * sin (dphi / 2) +
                cos phi1 * cos phi2 * sin (dlam / 2) * sin (dlam / 2);
            c = 2 * atan2 (sqrt a) (sqrt (1 - a))
        in R * c)"

definition calculateBearing :: "real \<Rightarrow> real \<Rightarrow> real \<Rightarrow> real \<Rightarrow> real" where
  "calculateBearing lat1 lon1 lat2 lon2 =
     (let phi1 = (lat1 * pi) / 180;
          phi2 = (lat2 * pi) / 180;
          lam1 = (lon1 * pi) / 180;
          lam2 = (lon2 * pi) / 180;
          y = sin (lam2 - lam1) * cos phi2;
          x = cos phi1 * sin phi2 - sin phi1 * cos phi2 * cos (lam2 - lam1);
          theta = atan2 y x
      in jsRem ((theta * 180) / pi + 360) 360)"

definition directions :: "string list" where
  "directions = [''North'', ''Northeast'', ''East'', ''Southeast'', ''South'', ''Southwest'',
                 ''West'', ''Northwest'', ''North'']"

definition bearingToDirection :: "real \<Rightarrow> string option" where
  "bearingToDirection bearing =
     (let index = jsRemInt (round (bearing / 45)) 8 in jsIndex directions index)"

text \<open>The eight labelled compass directions, clockwise from north.\<close>

definition compass :: "string list" where
  "compass = [''North'', ''Northeast'', ''East'', ''Southeast'', ''South'', ''Southwest'',
              ''West'', ''Northwest'']"


section \<open>NavigationService and the services it drives\<close>

record Destination =
  destId :: string
  destName :: string
  coordinates :: LocationCoordinates
  description :: "string option"

record NavigationStep =
  stepId :: string
  instruction :: string
  distance :: int
  direction :: "string option"
  isCompleted :: bool

text \<open>
  \<open>NavigationOptions\<close>: a callback field says whether the caller supplied the callback; an
  optional value is \<open>None\<close> when the caller left it \<open>undefined\<close>. The option \<open>updateInterval\<close>
  is named \<open>updateIntervalMs\<close> here, to keep it apart from the timer handle of the same name.
\<close>

record NavigationOptions =
  onLocationUpdate :: bool
  onStepChange :: bool
  onStepCompleted :: bool
  onArrival :: bool
  onError :: bool
  announceSteps :: "bool option"
  hapticFeedback :: "bool option"
  distanceThreshold :: "real option"
  updateIntervalMs :: "int option"

datatype HapticFeedbackType = Light | Medium | Heavy | Success | Warning | ErrorFeedback

text \<open>What the caller's callbacks receive, in the order they are invoked.\<close>

datatype nav_callback =
    ErrorCb string
  | StepChangeCb NavigationStep nat nat
  | StepCompletedCb NavigationStep nat nat
  | ArrivalCb
  | LocationUpdateCb LocationCoordinates

text \<open>
  One state for the singletons a navigation session touches. The first six fields are those of
  \<open>NavigationService\<close>, the next three those of \<open>LocationService\<close>, \<open>isEnabled\<close> is that
  of \<open>HapticService\<close>. The rest is the world around them:
  \<^item> \<open>timers\<close>: the interval timers that are live in the runtime (created by \<open>setInterval\<close> and
    not yet cleared), each with the options its callback closed over;
  \<^item> \<open>watches\<close>: the live position subscriptions at the platform, likewise (\<open>watchId\<close> is the
    handle of what \<open>watchPositionAsync\<close> returned for the latest of them);
  \<^item> \<open>nextHandle\<close>: the next fresh timer or subscription handle;
  \<^item> \<open>platformWeb\<close>: \<open>Platform.OS === 'web'\<close>;
  \<^item> \<open>spoken\<close>: the texts passed to \<open>speechService.speak\<close>;
  \<^item> \<open>impulses\<close>: the vibrations requested from the device, \<open>pendingPulses\<close> the second
    pulses of \<open>vibrateTurn\<close> still waiting for their 300 ms timeout;
  \<^item> \<open>callbacks\<close>: the caller's callbacks invoked so far.
\<close>

record nav_state =
  isNavigating :: bool
  currentDestination :: "Destination option"
  navigationSteps :: "NavigationStep list"
  currentStepIndex :: nat
  updateInterval :: "nat option"
  lastLocation :: "LocationCoordinates option"
  watchId :: "nat option"
  lastKnownLocation :: "LocationCoordinates option"
  isPermissionGranted :: bool
  isEnabled :: bool
  timers :: "(nat \<times> NavigationOptions) list"
  watches :: "(nat \<times> NavigationOptions) list"
  nextHandle :: nat
  platformWeb :: bool
  spoken :: "string list"
  impulses :: "HapticFeedbackType list"
  pendingPulses :: nat
  callbacks :: "nav_callback list"

definition coords :: "real \<Rightarrow> real \<Rightarrow> LocationCoordinates" where
  "coords lat lon = \<lparr> latitude = lat, longitude = lon, altitude = None, accuracy = None,
                      altitudeAccuracy = None, heading = None, speed = None \<rparr>"

definition commonDestinations :: "Destination list" where
  "commonDestinations =
     [ \<lparr> destId = ''grocery-store'', destName = ''Grocery Store'',
         coordinates = coords (3778825 / 100000) (- (1224324 / 10000)), description = None \<rparr>,
       \<lparr> destId = ''park'', destName = ''Park'',
         coordinates = coords (3778525 / 100000) (- (1224354 / 10000)), description = None \<rparr>,
       \<lparr> destId = ''library'', destName = ''Library'',
         coordinates = coords (3778925 / 100000) (- (1224374 / 10000)), description = None \<rparr>,
       \<lparr> destId = ''bus-stop'', destName = ''Bus Stop'',
         coordinates = coords (3778625 / 100000) (- (1224304 / 10000)), description = None \<rparr>,
       \<lparr> destId = ''home'', destName = ''Home'',
         coordinates = coords (3778725 / 100000) (- (1224334 / 10000)), description = None \<rparr> ]"

definition getDestinationById :: "string \<Rightarrow> Destination option" where
  "getDestinationById ident = find (\<lambda>dest. destId dest = ident) commonDestinations"

definition getDestinationByName :: "string \<Rightarrow> Destination option" where
  "getDestinationByName nm = find (\<lambda>dest. destName dest = nm) commonDestinations"

subsection \<open>HapticService\<close>

definition trigger :: "HapticFeedbackType \<Rightarrow> nav_state \<Rightarrow> nav_state" where
  "trigger ty s =
     (if \<not> isEnabled s \<or> platformWeb s then s else s\<lparr> impulses := impulses s @ [ty] \<rparr>)"

definition vibrateTurn :: "nav_state \<Rightarrow> nav_state" where
  "vibrateTurn s = (let s1 = trigger Medium s in s1\<lparr> pendingPulses := pendingPulses s1 + 1 \<rparr>)"

definition vibrateArrival :: "nav_state \<Rightarrow> nav_state" where
  "vibrateArrival s = trigger Success s"

text \<open>The 300 ms timeout of \<open>vibrateTurn\<close> fires.\<close>

definition turnPulse :: "nav_state \<Rightarrow> nav_state" where
  "turnPulse s =
     (if pendingPulses s = 0 then s else trigger Medium (s\<lparr> pendingPulses := pendingPulses s - 1 \<rparr>))"

subsection \<open>LocationService: permission, position and subscription\<close>

text \<open>
  What the platform answers during one call: \<open>permissionReply\<close> is the outcome of
  \<open>requestForegroundPermissionsAsync\<close> (\<open>None\<close>: it throws), \<open>positionFix\<close> that of
  \<open>getCurrentPositionAsync\<close> (\<open>None\<close>: it throws).
\<close>

record location_env =
  permissionReply :: "bool option"
  positionFix :: "LocationCoordinates option"

definition requestPermissions :: "location_env \<Rightarrow> nav_state \<Rightarrow> bool \<times> nav_state" where
  "requestPermissions env s =
     (case permissionReply env of
        None \<Rightarrow> (False, s)
      | Some granted \<Rightarrow> (granted, s\<lparr> isPermissionGranted := granted \<rparr>))"

definition currentPosition :: "location_env \<Rightarrow> nav_state \<Rightarrow> LocationCoordinates option \<times> nav_state" where
  "currentPosition env s =
     (case positionFix env of
        None \<Rightarrow> (None, s)
      | Some loc \<Rightarrow> (Some loc, s\<lparr> lastKnownLocation := Some loc \<rparr>))"

definition getCurrentLocation :: "location_env \<Rightarrow> nav_state \<Rightarrow> LocationCoordinates option \<times> nav_state" where
  "getCurrentLocation env s =
     (if \<not> isPermissionGranted s then
        (case requestPermissions env s of
           (granted, s1) \<Rightarrow> if \<not> granted then (None, s1) else currentPosition env s1)
      else currentPosition env s)"

datatype js_error = TypeError

text \<open>
  A function of the services that can throw returns the error thrown, if any, with the state
  at that moment. \<open>startWatching\<close> stores in \<open>watchId\<close> what \<open>Location.watchPositionAsync\<close>
  returns, without awaiting it: the promise of a subscription, which has no method \<open>remove\<close>.
  So once a watch has been started, \<open>this.watchId.remove()\<close> throws a \<open>TypeError\<close>, and
  \<open>stopLocationTracking\<close> leaves \<open>watchId\<close> and the subscription as they are.
\<close>

definition LocationService_stopLocationTracking :: "nav_state \<Rightarrow> js_error option \<times> nav_state" where
  "LocationService_stopLocationTracking s =
     (case watchId s of
        None \<Rightarrow> (None, s)
      | Some w \<Rightarrow> (Some TypeError, s))"

text \<open>
  \<open>startWatching\<close> calls \<open>stopLocationTracking\<close> before its \<open>try\<close> block, so what that throws
  leaves \<open>startWatching\<close>. \<open>watchPositionAsync\<close> itself is taken not to throw, so the \<open>catch\<close>
  block does not run.
\<close>

definition startWatching :: "NavigationOptions \<Rightarrow> nav_state \<Rightarrow> js_error option \<times> nav_state" where
  "startWatching opts s =
     (case LocationService_stopLocationTracking s of
        (Some e, s1) \<Rightarrow> (Some e, s1)
      | (None, s1) \<Rightarrow>
          (None,
           let w = nextHandle s1
           in s1\<lparr> watchId := Some w, watches := watches s1 @ [(w, opts)], nextHandle := w + 1 \<rparr>))"

text \<open>
  The \<open>onError\<close> that \<open>NavigationService.startLocationTracking\<close> hands to the location service.
\<close>

definition trackingError :: "NavigationOptions \<Rightarrow> string \<Rightarrow> nav_state \<Rightarrow> nav_state" where
  "trackingError opts e s =
     (if onError opts then s\<lparr> callbacks := callbacks s @ [ErrorCb (''Location tracking error: '' @ e)] \<rparr>
      else s)"

text \<open>
  Without the permission, \<open>startWatching\<close> runs inside the \<open>then\<close> of \<open>requestPermissions\<close>:
  what it throws there rejects a promise nobody handles and does not reach the caller.
\<close>

definition LocationService_startLocationTracking ::
    "NavigationOptions \<Rightarrow> location_env \<Rightarrow> nav_state \<Rightarrow> js_error option \<times> nav_state" where
  "LocationService_startLocationTracking opts env s =
     (if \<not> isPermissionGranted s then
        (case requestPermissions env s of
           (granted, s1) \<Rightarrow>
             if granted then (None, snd (startWatching opts s1))
             else (None, trackingError opts ''Location permission not granted'' s1))
      else startWatching opts s)"

text \<open>The platform delivers a sample to the subscription \<open>w\<close>, when there is such a subscription.\<close>

definition locationSample :: "nat \<Rightarrow> LocationCoordinates \<Rightarrow> nav_state \<Rightarrow> nav_state" where
  "locationSample w loc s =
     (case map_of (watches s) w of
        None \<Rightarrow> s
      | Some opts \<Rightarrow>
          let s1 = s\<lparr> lastKnownLocation := Some loc \<rparr>;
              s2 = s1\<lparr> lastLocation := Some loc \<rparr>
          in if onLocationUpdate opts then s2\<lparr> callbacks := callbacks s2 @ [LocationUpdateCb loc] \<rparr>
             else s2)"


subsection \<open>NavigationService\<close>

text \<open>A template literal prints an \<open>undefined\<close> value as the word.\<close>

definition render :: "string option \<Rightarrow> string" where
  "render v = (case v of None \<Rightarrow> ''undefined'' | Some str \<Rightarrow> str)"

definition turnDirections :: "string list" where
  "turnDirections = [''right'', ''left'']"

definition turnLabel :: "string option \<Rightarrow> string" where
  "turnLabel t = (if t = Some ''right'' then ''Right'' else ''Left'')"

text \<open>
  \<open>r1\<close> and \<open>r2\<close> are the two \<open>Math.random()\<close> draws. The result is \<open>None\<close> when
  \<open>direction.toLowerCase()\<close> throws because \<open>bearingToDirection\<close> returned \<open>undefined\<close>.
\<close>

definition generateNavigationSteps ::
    "LocationCoordinates \<Rightarrow> LocationCoordinates \<Rightarrow> real \<Rightarrow> real \<Rightarrow> NavigationStep list option" where
  "generateNavigationSteps start end r1 r2 =
     (let totalDistance = calculateDistance (latitude start) (longitude start) (latitude end) (longitude end);
          bearing = calculateBearing (latitude start) (longitude start) (latitude end) (longitude end)
      in case bearingToDirection bearing of
           None \<Rightarrow> None
         | Some dir \<Rightarrow>
             let third = round (totalDistance / 3);
                 randomTurn = jsIndex turnDirections \<lfloor>r1 * 2\<rfloor>;
                 secondTurn = jsIndex turnDirections \<lfloor>r2 * 2\<rfloor>
             in Some
               [ \<lparr> stepId = ''step-1'',
                   instruction = ''Head '' @ toLowerCase dir @ '' for '' @ intToString third @ '' meters'',
                   distance = third, direction = Some dir, isCompleted = False \<rparr>,
                 \<lparr> stepId = ''step-2'',
                   instruction = ''Turn '' @ render randomTurn @ '' at the intersection'',
                   distance = 0, direction = Some (turnLabel randomTurn), isCompleted = False \<rparr>,
                 \<lparr> stepId = ''step-3'',
                   instruction = ''Continue straight for '' @ intToString third @ '' meters'',
                   distance = third, direction = Some ''Straight'', isCompleted = False \<rparr>,
                 \<lparr> stepId = ''step-4'',
                   instruction = ''Cross the street at the pedestrian crossing'',
                   distance = 0, direction = Some ''Straight'', isCompleted = False \<rparr>,
                 \<lparr> stepId = ''step-5'',
                   instruction = ''Turn '' @ render secondTurn @ '' after the bus stop'',
                   distance = 0, direction = Some (turnLabel secondTurn), isCompleted = False \<rparr>,
                 \<lparr> stepId = ''step-6'',
                   instruction = ''Your destination is '' @ intToString third @ '' meters ahead on your ''
                                 @ render randomTurn,
                   distance = third, direction = Some (turnLabel randomTurn), isCompleted = False \<rparr> ])"

definition clearInterval :: "nat \<Rightarrow> nav_state \<Rightarrow> nav_state" where
  "clearInterval h s = s\<lparr> timers := filter (\<lambda>e. fst e \<noteq> h) (timers s) \<rparr>"

definition clearUpdateInterval :: "nav_state \<Rightarrow> nav_state" where
  \<comment> \<open>\<open>if (this.updateInterval) { clearInterval(this.updateInterval); this.updateInterval = null; }\<close>\<close>
  "clearUpdateInterval s =
     (case updateInterval s of
        None \<Rightarrow> s
      | Some h \<Rightarrow> (clearInterval h s)\<lparr> updateInterval := None \<rparr>)"

definition stopNavigation :: "nav_state \<Rightarrow> js_error option \<times> nav_state" where
  "stopNavigation s =
     (if \<not> isNavigating s then (None, s)
      else
        let s1 = s\<lparr> isNavigating := False, currentDestination := None,
                    navigationSteps := [], currentStepIndex := 0 \<rparr>;
            s2 = clearUpdateInterval s1
        in LocationService_stopLocationTracking s2)"

definition moveToNextStep :: "nav_state \<Rightarrow> bool \<times> nav_state" where
  "moveToNextStep s =
     (if \<not> isNavigating s \<or> int (currentStepIndex s) \<ge> int (length (navigationSteps s)) - 1
      then (False, s)
      else (True, s\<lparr> currentStepIndex := currentStepIndex s + 1 \<rparr>))"

definition moveToPreviousStep :: "nav_state \<Rightarrow> bool \<times> nav_state" where
  "moveToPreviousStep s =
     (if \<not> isNavigating s \<or> currentStepIndex s \<le> 0 then (False, s)
      else (True, s\<lparr> currentStepIndex := currentStepIndex s - 1 \<rparr>))"

definition speechService_speak :: "string \<Rightarrow> nav_state \<Rightarrow> nav_state" where
  "speechService_speak msg s = s\<lparr> spoken := spoken s @ [msg] \<rparr>"

definition notify :: "nav_callback \<Rightarrow> nav_state \<Rightarrow> nav_state" where
  "notify c s = s\<lparr> callbacks := callbacks s @ [c] \<rparr>"

text \<open>
  The body of the interval callback set up by \<open>NavigationService.startLocationTracking\<close>, for
  the options it closed over (\<open>announceSteps\<close> and \<open>hapticFeedback\<close> default to true,
  \<open>distanceThreshold\<close> to 10), in three parts: the block run on arrival, the block that
  completes the current step, and the callback that chooses between them.
\<close>

definition announceOn :: "NavigationOptions \<Rightarrow> bool" where
  "announceOn opts = (case announceSteps opts of None \<Rightarrow> True | Some b \<Rightarrow> b)"

definition hapticOn :: "NavigationOptions \<Rightarrow> bool" where
  "hapticOn opts = (case hapticFeedback opts of None \<Rightarrow> True | Some b \<Rightarrow> b)"

definition thresholdOf :: "NavigationOptions \<Rightarrow> real" where
  "thresholdOf opts = (case distanceThreshold opts of None \<Rightarrow> 10 | Some t \<Rightarrow> t)"

definition arrive :: "NavigationOptions \<Rightarrow> Destination \<Rightarrow> nav_state \<Rightarrow> nav_state" where
  "arrive opts dest s =
     (let s1 = s\<lparr> isNavigating := False \<rparr>;
          s2 = (if announceOn opts
                then speechService_speak (''You have arrived at '' @ destName dest) s1
                else s1);
          s3 = (if hapticOn opts then vibrateArrival s2 else s2);
          s4 = (if onArrival opts then notify ArrivalCb s3 else s3)
      in clearUpdateInterval s4)"

text \<open>Reading a step beyond the array throws inside the callback, which leaves the state as it is.\<close>

definition completeStep :: "NavigationOptions \<Rightarrow> nav_state \<Rightarrow> nav_state" where
  "completeStep opts s =
     (if currentStepIndex s < length (navigationSteps s) then
        let i = currentStepIndex s;
            currentStep = navigationSteps s ! i
        in if \<not> isCompleted currentStep \<and> int i < int (length (navigationSteps s)) - 1 then
             let done = currentStep\<lparr> isCompleted := True \<rparr>;
                 s1 = s\<lparr> navigationSteps := (navigationSteps s)[i := done] \<rparr>;
                 s2 = (if onStepCompleted opts
                       then notify (StepCompletedCb done i (length (navigationSteps s1))) s1
                       else s1);
                 s3 = s2\<lparr> currentStepIndex := i + 1 \<rparr>;
                 nextStep = navigationSteps s3 ! (i + 1);
                 s4 = (if announceOn opts then speechService_speak (instruction nextStep) s3 else s3);
                 s5 = (if hapticOn opts then vibrateTurn s4 else s4)
             in if onStepChange opts
                then notify (StepChangeCb nextStep (i + 1) (length (navigationSteps s5))) s5
                else s5
           else s
      else s)"

definition progressCheck :: "NavigationOptions \<Rightarrow> nav_state \<Rightarrow> nav_state" where
  "progressCheck opts s =
     (case (lastLocation s, currentDestination s) of
        (Some loc, Some dest) \<Rightarrow>
          if \<not> isNavigating s then s
          else
            let distanceToDestination =
                  calculateDistance (latitude loc) (longitude loc)
                    (latitude (coordinates dest)) (longitude (coordinates dest))
            in if distanceToDestination \<le> thresholdOf opts then arrive opts dest s
               else completeStep opts s
      | _ \<Rightarrow> s)"

text \<open>The runtime fires the interval timer \<open>h\<close>; a cleared timer does not fire.\<close>

definition intervalTick :: "nat \<Rightarrow> nav_state \<Rightarrow> nav_state" where
  "intervalTick h s = (case map_of (timers s) h of None \<Rightarrow> s | Some opts \<Rightarrow> progressCheck opts s)"

text \<open>
  \<open>NavigationService.startLocationTracking\<close>: when the location service throws, \<open>setInterval\<close>
  is not reached.
\<close>

definition NavigationService_startLocationTracking ::
    "NavigationOptions \<Rightarrow> location_env \<Rightarrow> nav_state \<Rightarrow> js_error option \<times> nav_state" where
  "NavigationService_startLocationTracking opts env s =
     (case LocationService_startLocationTracking opts env s of
        (Some e, s1) \<Rightarrow> (Some e, s1)
      | (None, s1) \<Rightarrow>
          (None,
           let h = nextHandle s1
           in s1\<lparr> updateInterval := Some h, timers := timers s1 @ [(h, opts)], nextHandle := h + 1 \<rparr>))"

datatype destination_ref = ByString string | ByObject Destination

text \<open>
  \<open>startNavigation\<close>, in the two parts its \<open>await\<close> of \<open>getCurrentLocation\<close> separates.
  \<open>startNavigation_begin\<close> is the part that runs when the call is made: it stops a session that
  is active (the promise rejects when \<open>stopNavigation\<close> throws), resolves the destination and,
  when there is none, reports the error and returns \<open>false\<close>; otherwise the call waits for the
  position, with the resolved destination. \<open>startNavigation_resume\<close> is the part that runs when
  the position has come back, \<open>env\<close> being the answer of the platform. Its result is \<open>Some b\<close>
  when the promise resolves to \<open>b\<close> and \<open>None\<close> when it rejects (\<open>generateNavigationSteps\<close> or
  \<open>startLocationTracking\<close> threw).
\<close>

datatype begin_result = Rejected js_error | ReturnedFalse | Awaiting Destination

definition startNavigation_begin ::
    "destination_ref \<Rightarrow> NavigationOptions \<Rightarrow> nav_state \<Rightarrow> begin_result \<times> nav_state" where
  "startNavigation_begin destination opts s =
     (case (if isNavigating s then stopNavigation s else (None, s)) of
        (Some e, s') \<Rightarrow> (Rejected e, s')
      | (None, s0) \<Rightarrow>
          let targetDestination =
                (case destination of
                   ByString str \<Rightarrow>
                     (case getDestinationById str of
                        Some d \<Rightarrow> Some d
                      | None \<Rightarrow> getDestinationByName str)
                 | ByObject d \<Rightarrow> Some d)
          in (case targetDestination of
                None \<Rightarrow>
                  (ReturnedFalse,
                   if onError opts then notify (ErrorCb ''Invalid destination'') s0 else s0)
              | Some target \<Rightarrow> (Awaiting target, s0)))"

definition startNavigation_resume ::
    "Destination \<Rightarrow> NavigationOptions \<Rightarrow> location_env \<Rightarrow> real \<Rightarrow> real \<Rightarrow> nav_state
      \<Rightarrow> bool option \<times> nav_state" where
  "startNavigation_resume target opts env r1 r2 s0 =
     (case getCurrentLocation env s0 of
        (None, s1) \<Rightarrow>
          (Some False,
           if onError opts then notify (ErrorCb ''Unable to get current location'') s1 else s1)
      | (Some currentLocation, s1) \<Rightarrow>
          let s2 = s1\<lparr> lastLocation := Some currentLocation,
                      currentDestination := Some target, isNavigating := True \<rparr>
          in (case generateNavigationSteps currentLocation (coordinates target) r1 r2 of
               None \<Rightarrow> (None, s2)
             | Some steps \<Rightarrow>
                 let s3 = s2\<lparr> navigationSteps := steps, currentStepIndex := 0 \<rparr>;
                     s4 = (if announceSteps opts \<noteq> Some False
                           then speechService_speak
                                  (''Starting navigation to '' @ destName target @ ''. ''
                                     @ instruction (navigationSteps s3 ! 0)) s3
                           else s3);
                     s5 = (if hapticFeedback opts \<noteq> Some False then trigger Medium s4 else s4);
                     s6 = (if onStepChange opts
                           then notify (StepChangeCb (navigationSteps s5 ! 0) 0
                                          (length (navigationSteps s5))) s5
                           else s5)
                 in (case NavigationService_startLocationTracking opts env s6 of
                       (Some e, s7) \<Rightarrow> (None, s7)
                     | (None, s7) \<Rightarrow> (Some True, s7))))"

text \<open>
  A call of \<open>startNavigation\<close> that nothing interrupts: both parts, one after the other.
\<close>

definition startNavigation ::
    "destination_ref \<Rightarrow> NavigationOptions \<Rightarrow> location_env \<Rightarrow> real \<Rightarrow> real \<Rightarrow> nav_state
      \<Rightarrow> bool option \<times> nav_state" where
  "startNavigation destination opts env r1 r2 s =
     (case startNavigation_begin destination opts s of
        (Rejected e, s') \<Rightarrow> (None, s')
      | (ReturnedFalse, s') \<Rightarrow> (Some False, s')
      | (Awaiting target, s0) \<Rightarrow> startNavigation_resume target opts env r1 r2 s0)"

text \<open>
  The entry points and runtime events of a navigation session, each running to its end before
  the next one starts.
\<close>

datatype nav_event =
    StartNavigation destination_ref NavigationOptions location_env real real
  | StopNavigation
  | IntervalTick nat
  | LocationSample nat LocationCoordinates
  | MoveToNextStep
  | MoveToPreviousStep
  | TurnPulse

fun nav_step :: "nav_state \<Rightarrow> nav_event \<Rightarrow> nav_state" where
  "nav_step s (StartNavigation dest opts env r1 r2) = snd (startNavigation dest opts env r1 r2 s)"
| "nav_step s StopNavigation = snd (stopNavigation s)"
| "nav_step s (IntervalTick h) = intervalTick h s"
| "nav_step s (LocationSample w loc) = locationSample w loc s"
| "nav_step s MoveToNextStep = snd (moveToNextStep s)"
| "nav_step s MoveToPreviousStep = snd (moveToPreviousStep s)"
| "nav_step s TurnPulse = turnPulse s"

definition nav_run :: "nav_event list \<Rightarrow> nav_state \<Rightarrow> nav_state" where
  "nav_run es s = foldl nav_step s es"

text \<open>The services as they are when the modules have loaded.\<close>

definition nav_init :: "bool \<Rightarrow> nav_state" where
  "nav_init web =
     \<lparr> isNavigating = False, currentDestination = None, navigationSteps = [], currentStepIndex = 0,
       updateInterval = None, lastLocation = None, watchId = None, lastKnownLocation = None,
       isPermissionGranted = False, isEnabled = True, timers = [], watches = [], nextHandle = 1,
       platformWeb = web, spoken = [], impulses = [], pendingPulses = 0, callbacks = [] \<rparr>"

section \<open>ObjectDetectionService\<close>

record BoundingBox =
  boxX :: "real option"
  boxY :: "real option"
  boxWidth :: "real option"
  boxHeight :: "real option"

text \<open>
  A \<open>DetectedObject\<close>; the fields \<open>id\<close>, \<open>name\<close> and \<open>distance\<close> of the source are
  \<open>objId\<close>, \<open>objName\<close> and \<open>objDistance\<close>. \<open>objName\<close> is \<open>None\<close> when the label lookup
  gave \<open>undefined\<close>.
\<close>

record DetectedObject =
  objId :: string
  objName :: "string option"
  confidence :: real
  boundingBox :: "BoundingBox option"
  objDistance :: "real option"

definition COCO_LABELS :: "string list" where
  "COCO_LABELS =
     [''person'', ''bicycle'', ''car'', ''motorcycle'', ''airplane'', ''bus'', ''train'', ''truck'', ''boat'',
      ''traffic light'', ''fire hydrant'', ''stop sign'', ''parking meter'', ''bench'', ''bird'', ''cat'', ''dog'',
      ''horse'', ''sheep'', ''cow'', ''elephant'', ''bear'', ''zebra'', ''giraffe'', ''backpack'', ''umbrella'',
      ''handbag'', ''tie'', ''suitcase'', ''frisbee'', ''skis'', ''snowboard'', ''sports ball'', ''kite'',
      ''baseball bat'', ''baseball glove'', ''skateboard'', ''surfboard'', ''tennis racket'', ''bottle'',
      ''wine glass'', ''cup'', ''fork'', ''knife'', ''spoon'', ''bowl'', ''banana'', ''apple'', ''sandwich'',
      ''orange'', ''broccoli'', ''carrot'', ''hot dog'', ''pizza'', ''donut'', ''cake'', ''chair'', ''couch'',
      ''potted plant'', ''bed'', ''dining table'', ''toilet'', ''tv'', ''laptop'', ''mouse'', ''remote'', ''keyboard'',
      ''cell phone'', ''microwave'', ''oven'', ''toaster'', ''sink'', ''refrigerator'', ''book'', ''clock'', ''vase'',
      ''scissors'', ''teddy bear'', ''hair drier'', ''toothbrush'']"

text \<open>
  The three output tensors of one forward pass, as \<open>dataSync\<close> returns them; the class ids are
  integral.
\<close>

record predictions =
  boxes :: "real list"
  scores :: "real list"
  classes :: "int list"

definition estimateDistance :: "real \<Rightarrow> real" where
  "estimateDistance c = of_int (round ((1 - c) * 5 * 10)) / 10"

text \<open>
  One round of the \<open>for\<close> loop of \<open>processImage\<close>, for the index \<open>i\<close>; \<open>clock i\<close> is what
  \<open>Date.now()\<close> reads when the object for index \<open>i\<close> is built.
\<close>

definition detectionAt :: "(nat \<Rightarrow> int) \<Rightarrow> predictions \<Rightarrow> nat \<Rightarrow> DetectedObject list" where
  "detectionAt clock p i =
     (if scores p ! i > 0.5 then
        (case jsIndex (classes p) (int i) of
           None \<Rightarrow> []
         | Some classIndex \<Rightarrow>
             if classIndex < int (length COCO_LABELS) then
               [ \<lparr> objId = render (jsIndex COCO_LABELS classIndex) @ ''-'' @ intToString (clock i),
                   objName = jsIndex COCO_LABELS classIndex,
                   confidence = scores p ! i,
                   boundingBox = Some \<lparr> boxX = jsIndex (boxes p) (int i * 4),
                                         boxY = jsIndex (boxes p) (int i * 4 + 1),
                                         boxWidth = jsIndex (boxes p) (int i * 4 + 2),
                                         boxHeight = jsIndex (boxes p) (int i * 4 + 3) \<rparr>,
                   objDistance = Some (estimateDistance (scores p ! i)) \<rparr> ]
             else [])
      else [])"

text \<open>
  The state of the service (first seven fields; \<open>modelPresent\<close> is \<open>this.model !== null\<close>) and
  of the world around it: \<open>hapticsEnabled\<close> and \<open>detWeb\<close> are the haptic service's flag and the
  platform test, \<open>pictures\<close> counts the calls of \<open>takePicture\<close>, \<open>cycles\<close> the frames that were
  captured and handed to \<open>processImage\<close>, \<open>batches\<close> holds what \<open>processImage\<close> returned for
  each of them, \<open>emitted\<close> what \<open>onDetection\<close> received, \<open>announced\<close> the texts passed to
  \<open>speechService.speak\<close>, \<open>detImpulses\<close> the vibrations requested, \<open>detErrors\<close> what \<open>onError\<close>
  received.
\<close>

record detection_state =
  isDetecting :: bool
  detectionInterval :: "nat option"
  hasPermission :: bool
  lastFrameTime :: int
  frameInterval :: int
  isModelLoaded :: bool
  modelPresent :: bool
  hapticsEnabled :: bool
  detWeb :: bool
  detNextHandle :: nat
  pictures :: nat
  cycles :: nat
  batches :: "DetectedObject list list"
  emitted :: "DetectedObject list list"
  announced :: "string list"
  detImpulses :: "HapticFeedbackType list"
  detErrors :: "string list"

text \<open>
  What the world answers during one run of \<open>detectFrame\<close>: \<open>now\<close> is the \<open>Date.now()\<close> at its
  start, \<open>picture\<close> the result of \<open>takePicture\<close>, \<open>inference\<close> the tensors of the forward pass
  (\<open>None\<close>: loading, decoding or predicting threw), \<open>clock\<close> the \<open>Date.now()\<close> readings inside
  \<open>processImage\<close>.
\<close>

record frame_env =
  now :: int
  picture :: "string option"
  inference :: "predictions option"
  clock :: "nat \<Rightarrow> int"

definition processImage :: "frame_env \<Rightarrow> detection_state \<Rightarrow> DetectedObject list" where
  "processImage env s =
     (if \<not> isModelLoaded s then []
      else if \<not> modelPresent s then []
      else
        (case inference env of
           None \<Rightarrow> []
         | Some p \<Rightarrow> foldl (\<lambda>detectedObjects i. detectedObjects @ detectionAt (clock env) p i)
                       [] [0 ..< length (scores p)]))"

text \<open>
  A number with at most one decimal digit, as a template literal prints it (\<open>4.5\<close>, \<open>2\<close>).
\<close>

definition numberToString :: "real \<Rightarrow> string" where
  "numberToString d =
     (let tenths = round (d * 10);
          whole = nat \<bar>tenths\<bar> div 10;
          frac = nat \<bar>tenths\<bar> mod 10
      in (if tenths < 0 then ''-'' else []) @ natToString whole
         @ (if frac = 0 then [] else ''.'' @ natToString frac))"

definition describeObject :: "DetectedObject \<Rightarrow> string" where
  "describeObject obj =
     ''a '' @ render (objName obj)
       @ (case objDistance obj of
            None \<Rightarrow> []
          | Some d \<Rightarrow> if d = 0 then [] else '' about '' @ numberToString d @ '' meters away'')"

definition announcement :: "DetectedObject list \<Rightarrow> string" where
  "announcement detectedObjects =
     (if length detectedObjects = 1 then ''Detected '' @ describeObject (detectedObjects ! 0)
      else
        foldl (\<lambda>msg index.
                 msg @ (if index > 0
                        then (if int index = int (length detectedObjects) - 1 then '' and '' else '', '')
                        else [])
                     @ describeObject (detectedObjects ! index))
              ''Detected: '' [0 ..< length detectedObjects])"

text \<open>
  \<open>detectFrame\<close>, for the parameters \<open>startDetectionProcess\<close> was called with, in the two parts
  its first \<open>await\<close> separates. \<open>detectFrame_start\<close> is the part that runs when the trigger
  fires: it reads the clock, returns at once when the floor has not passed since
  \<open>lastFrameTime\<close>, and calls \<open>takePicture\<close> otherwise (the result says which). \<open>detectFrame_finish\<close>
  is the part that runs when the picture and then the inference have come back; \<open>currentTime\<close>
  is the clock reading the first part took.
\<close>

definition detectFrame_start :: "int \<Rightarrow> detection_state \<Rightarrow> bool \<times> detection_state" where
  "detectFrame_start currentTime s =
     (if currentTime - lastFrameTime s < frameInterval s then (False, s)
      else (True, s\<lparr> pictures := pictures s + 1 \<rparr>))"

definition detectFrame_finish ::
    "bool \<Rightarrow> bool \<Rightarrow> real \<Rightarrow> int \<Rightarrow> nat \<Rightarrow> bool \<Rightarrow> bool \<Rightarrow> int \<Rightarrow> frame_env \<Rightarrow> detection_state
      \<Rightarrow> detection_state" where
  "detectFrame_finish onDetection onErr confidenceThreshold detectionIntervalMs maxDetections
       announceObjects haptic currentTime env s1 =
     (case picture env of
        None \<Rightarrow>
          if onErr then s1\<lparr> detErrors := detErrors s1 @ [''Error during object detection''] \<rparr>
          else s1
      | Some imageUri \<Rightarrow>
          let detectedObjects = processImage env s1;
              s2 = s1\<lparr> cycles := cycles s1 + 1, batches := batches s1 @ [detectedObjects] \<rparr>;
              s3 = (if length detectedObjects > 0 then
                      let a = (if haptic \<and> \<not> detWeb s2 \<and> hapticsEnabled s2
                               then s2\<lparr> detImpulses := detImpulses s2 @ [Light] \<rparr> else s2);
                          b = (if announceObjects
                               then a\<lparr> announced := announced a @ [announcement detectedObjects] \<rparr>
                               else a)
                      in if onDetection then b\<lparr> emitted := emitted b @ [detectedObjects] \<rparr> else b
                    else s2)
          in s3\<lparr> lastFrameTime := currentTime \<rparr>)"

text \<open>
  A run of \<open>detectFrame\<close> that nothing interrupts: both parts, one after the other, with the
  clock reading \<open>now env\<close>.
\<close>

definition detectFrame ::
    "bool \<Rightarrow> bool \<Rightarrow> real \<Rightarrow> int \<Rightarrow> nat \<Rightarrow> bool \<Rightarrow> bool \<Rightarrow> frame_env \<Rightarrow> detection_state \<Rightarrow> detection_state" where
  "detectFrame onDetection onErr confidenceThreshold detectionIntervalMs maxDetections
       announceObjects haptic env s =
     (case detectFrame_start (now env) s of
        (False, s') \<Rightarrow> s'
      | (True, s1) \<Rightarrow>
          detectFrame_finish onDetection onErr confidenceThreshold detectionIntervalMs maxDetections
            announceObjects haptic (now env) env s1)"

text \<open>
  \<open>startDetectionProcess\<close>: \<open>startNow\<close> is the \<open>Date.now()\<close> stored in \<open>lastFrameTime\<close>, \<open>env\<close>
  the world during the \<open>detectFrame()\<close> it runs at once.
\<close>

definition startDetectionProcess ::
    "bool \<Rightarrow> bool \<Rightarrow> real \<Rightarrow> int \<Rightarrow> nat \<Rightarrow> bool \<Rightarrow> bool \<Rightarrow> int \<Rightarrow> frame_env \<Rightarrow> detection_state
      \<Rightarrow> detection_state" where
  "startDetectionProcess onDetection onErr confidenceThreshold detectionIntervalMs maxDetections
       announceObjects haptic startNow env s =
     (let s1 = s\<lparr> isDetecting := True, lastFrameTime := startNow \<rparr>;
          s2 = detectFrame onDetection onErr confidenceThreshold detectionIntervalMs maxDetections
                 announceObjects haptic env s1
      in s2\<lparr> detectionInterval := Some (detNextHandle s2), detNextHandle := detNextHandle s2 + 1 \<rparr>)"

definition stopDetection :: "detection_state \<Rightarrow> detection_state" where
  "stopDetection s =
     (if \<not> isDetecting s then s
      else s\<lparr> isDetecting := False, detectionInterval := None \<rparr>)"

text \<open>The service when the module has loaded, the camera is granted and the model is ready.\<close>

definition detection_ready :: detection_state where
  "detection_ready =
     \<lparr> isDetecting = False, detectionInterval = None, hasPermission = True, lastFrameTime = 0,
       frameInterval = 1000, isModelLoaded = True, modelPresent = True, hapticsEnabled = True,
       detWeb = False, detNextHandle = 1, pictures = 0, cycles = 0, batches = [], emitted = [],
       announced = [], detImpulses = [], detErrors = [] \<rparr>"

section \<open>Invariants and sample data\<close>





definition utt :: "string \<Rightarrow> utterance" where
  "utt msg = \<lparr> utteranceText = msg, hasOnDone = True, hasOnError = True \<rparr>"

text \<open>The handles a handle field names: none or one.\<close>

definition handles :: "nat option \<Rightarrow> nat list" where
  "handles h = (case h of None \<Rightarrow> [] | Some k \<Rightarrow> [k])"

text \<open>
  Sample data: two sets of options (all callbacks supplied; announcements and haptics switched
  off, or left at their defaults), a platform that grants the permission and reports the
  position of the catalog entry Home, that entry, the route generated from Home to Home with
  both random draws 0, and the session that \<open>startNavigation\<close> then sets up.
\<close>

definition quiet :: NavigationOptions where
  "quiet = \<lparr> onLocationUpdate = True, onStepChange = True, onStepCompleted = True, onArrival = True,
             onError = True, announceSteps = Some False, hapticFeedback = Some False,
             distanceThreshold = None, updateIntervalMs = None \<rparr>"

definition defaults :: NavigationOptions where
  "defaults = \<lparr> onLocationUpdate = True, onStepChange = True, onStepCompleted = True, onArrival = True,
             onError = True, announceSteps = None, hapticFeedback = None,
             distanceThreshold = None, updateIntervalMs = None \<rparr>"

definition atHome :: location_env where
  "atHome = \<lparr> permissionReply = Some True,
              positionFix = Some (coords (3778725 / 100000) (- (1224334 / 10000))) \<rparr>"

text \<open>
  Two parts of \<open>startNavigation\<close> by name: the resolution of its argument, and what it does
  once the steps are generated.
\<close>

definition resolve :: "destination_ref \<Rightarrow> Destination option" where
  "resolve destination =
     (case destination of
        ByString str \<Rightarrow> (case getDestinationById str of Some d \<Rightarrow> Some d | None \<Rightarrow> getDestinationByName str)
      | ByObject d \<Rightarrow> Some d)"

definition launch ::
    "NavigationOptions \<Rightarrow> location_env \<Rightarrow> Destination \<Rightarrow> NavigationStep list \<Rightarrow> nav_state
      \<Rightarrow> bool option \<times> nav_state" where
  "launch opts env target steps s2 =
     (let s3 = s2\<lparr> navigationSteps := steps, currentStepIndex := 0 \<rparr>;
          s4 = (if announceSteps opts \<noteq> Some False
                then speechService_speak
                       (''Starting navigation to '' @ destName target @ ''. ''
                          @ instruction (navigationSteps s3 ! 0)) s3
                else s3);
          s5 = (if hapticFeedback opts \<noteq> Some False then trigger Medium s4 else s4);
          s6 = (if onStepChange opts
                then notify (StepChangeCb (navigationSteps s5 ! 0) 0 (length (navigationSteps s5))) s5
                else s5)
      in (case NavigationService_startLocationTracking opts env s6 of
            (Some e, s7) \<Rightarrow> (None, s7)
          | (None, s7) \<Rightarrow> (Some True, s7)))"

definition home :: Destination where
  "home = \<lparr> destId = ''home'', destName = ''Home'',
            coordinates = coords (3778725 / 100000) (- (1224334 / 10000)), description = None \<rparr>"

definition homeSteps :: "NavigationStep list" where
  "homeSteps =
     [ \<lparr> stepId = ''step-1'', instruction = ''Head north for 0 meters'',
         distance = 0, direction = Some ''North'', isCompleted = False \<rparr>,
       \<lparr> stepId = ''step-2'', instruction = ''Turn right at the intersection'',
         distance = 0, direction = Some ''Right'', isCompleted = False \<rparr>,
       \<lparr> stepId = ''step-3'', instruction = ''Continue straight for 0 meters'',
         distance = 0, direction = Some ''Straight'', isCompleted = False \<rparr>,
       \<lparr> stepId = ''step-4'', instruction = ''Cross the street at the pedestrian crossing'',
         distance = 0, direction = Some ''Straight'', isCompleted = False \<rparr>,
       \<lparr> stepId = ''step-5'', instruction = ''Turn right after the bus stop'',
         distance = 0, direction = Some ''Right'', isCompleted = False \<rparr>,
       \<lparr> stepId = ''step-6'', instruction = ''Your destination is 0 meters ahead on your right'',
         distance = 0, direction = Some ''Right'', isCompleted = False \<rparr> ]"

definition activeHome :: "NavigationOptions \<Rightarrow> nav_state" where
  "activeHome opts =
     \<lparr> isNavigating = True, currentDestination = Some home, navigationSteps = homeSteps,
       currentStepIndex = 0, updateInterval = Some 2, lastLocation = Some (coordinates home),
       watchId = Some 1, lastKnownLocation = Some (coordinates home),
       isPermissionGranted = True, isEnabled = True, timers = [(2, opts)], watches = [(1, opts)],
       nextHandle = 3, platformWeb = False,
       spoken = (if announceSteps opts \<noteq> Some False
                 then [''Starting navigation to Home. Head north for 0 meters''] else []),
       impulses = (if hapticFeedback opts \<noteq> Some False then [Medium] else []),
       pendingPulses = 0,
       callbacks = (if onStepChange opts then [StepChangeCb (homeSteps ! 0) 0 6] else []) \<rparr>"

text \<open>
  A captured frame at time \<open>t\<close> whose forward pass gives the scores \<open>sc\<close> and class ids \<open>cl\<close>, all
  objects of the frame being built within the same millisecond.
\<close>

definition frame :: "int \<Rightarrow> real list \<Rightarrow> int list \<Rightarrow> frame_env" where
  "frame t sc cl =
     \<lparr> now = t, picture = Some ''file:///frame.jpg'',
       inference = Some \<lparr> boxes = [], scores = sc, classes = cl \<rparr>,
       clock = (\<lambda>i. 1700000000000) \<rparr>"

section \<open>Properties of the speech queue\<close>

















text \<open>
  Claim C3. \<open>stop\<close> empties the queue and clears \<open>isSpeaking\<close> but leaves \<open>isProcessingQueue\<close>
  as it is. With an utterance outstanding the flag is set, and it stays set: the utterance
  enqueued after the \<open>stop\<close> is appended to the queue and not handed to the device, the queue
  is not processed, and neither a late completion signal nor a further \<open>speak\<close> changes that.
\<close>

theorem stop_leaves_queue_stalled:
  "(let s = speech_run (\<lambda>u. None) [Speak (utt ''first''), Stop, Speak (utt ''second'')] speech_init
    in isProcessingQueue s \<and> queue s = [utt ''second''] \<and> device s = [] \<and> completions s = [] \<and>
       speech_run (\<lambda>u. None) [DeviceDone, DeviceError ''late'', Speak (utt ''third'')] s
         = s\<lparr> queue := [utt ''second'', utt ''third''] \<rparr>)"
  by (simp add: speech_run_def speak_def processQueue.simps speech_init_def Let_def stop_def
        deviceDone_def deviceError_def)

section \<open>Properties of the geodesic utilities and the route generator\<close>

lemma atan2_lower: "- pi \<le> atan2 y x"
proof -
  have lb: "- (pi / 2) < arctan (y / x)" by (rule arctan_lbound)
  have pos: "0 < pi" by (rule pi_gt_zero)
  have a: "- pi \<le> arctan (y / x)" using lb pos by linarith
  have b: "- pi \<le> arctan (y / x) + pi" using lb pos by linarith
  have c: "- pi \<le> pi / 2" "- pi \<le> - (pi / 2)" "- pi \<le> 0" using pos by linarith+
  show ?thesis
  proof (cases "x < 0 \<and> y < 0")
    case True
    then have "0 < y / x" by (simp add: divide_neg_neg)
    then have "0 < arctan (y / x)" by simp
    then show ?thesis using True by (simp add: atan2_def)
  next
    case False
    then show ?thesis using a b c unfolding atan2_def by presburger
  qed
qed

lemma jsRem_range:
  assumes "0 \<le> a" and "0 < b"
  shows "0 \<le> jsRem a b \<and> jsRem a b < b"
proof -
  have q: "0 \<le> a / b" using assms by simp
  have t: "trunc (a / b) = \<lfloor>a / b\<rfloor>" using q by (simp add: trunc_def)
  have le: "of_int \<lfloor>a / b\<rfloor> \<le> a / b" by (rule of_int_floor_le)
  have lt: "a / b < of_int \<lfloor>a / b\<rfloor> + 1" by linarith
  have ab: "b * (a / b) = a" using assms(2) by simp
  have "b * of_int \<lfloor>a / b\<rfloor> \<le> b * (a / b)"
    using le assms(2) by (intro mult_left_mono) simp_all
  then have lo: "b * of_int \<lfloor>a / b\<rfloor> \<le> a" unfolding ab .
  have "b * (a / b) < b * (of_int \<lfloor>a / b\<rfloor> + 1)"
    using lt assms(2) by (intro mult_strict_left_mono) simp_all
  then have hi: "a < b * (of_int \<lfloor>a / b\<rfloor> + 1)" unfolding ab .
  show ?thesis using lo hi unfolding jsRem_def t by (simp add: algebra_simps)
qed

lemma calculateBearing_range:
  "0 \<le> calculateBearing lat1 lon1 lat2 lon2 \<and> calculateBearing lat1 lon1 lat2 lon2 < 360"
proof -
  define theta where "theta = atan2 (sin ((lon2 * pi) / 180 - (lon1 * pi) / 180) * cos ((lat2 * pi) / 180))
      (cos ((lat1 * pi) / 180) * sin ((lat2 * pi) / 180)
        - sin ((lat1 * pi) / 180) * cos ((lat2 * pi) / 180) * cos ((lon2 * pi) / 180 - (lon1 * pi) / 180))"
  have "- pi \<le> theta" unfolding theta_def by (rule atan2_lower)
  then have "- 180 \<le> (theta * 180) / pi"
    using pi_gt_zero by (simp add: pos_le_divide_eq)
  then have nn: "0 \<le> (theta * 180) / pi + 360" by simp
  have "calculateBearing lat1 lon1 lat2 lon2 = jsRem ((theta * 180) / pi + 360) 360"
    by (simp add: calculateBearing_def Let_def theta_def)
  then show ?thesis using jsRem_range [OF nn, of 360] by simp
qed

lemma round_bearing_range:
  assumes "0 \<le> b" and "b < 360"
  shows "0 \<le> round (b / 45) \<and> round (b / 45) \<le> 8"
proof -
  have "0 \<le> b / 45 + 1 / 2" using assms by simp
  then have lo: "0 \<le> \<lfloor>b / 45 + 1 / 2\<rfloor>" by simp
  have "b / 45 + 1 / 2 < 9" using assms by simp
  then have "\<lfloor>b / 45 + 1 / 2\<rfloor> < 9" by (simp add: floor_less_iff)
  then show ?thesis using lo by (simp add: round_def)
qed

lemma directions_compass:
  assumes "0 \<le> k" and "k < 8"
  shows "jsIndex directions k = Some (compass ! nat k)"
proof -
  have "nat k \<in> {0, 1, 2, 3, 4, 5, 6, 7}" using assms by auto
  then have "directions ! nat k = compass ! nat k"
    by (auto simp: directions_def compass_def)
  then show ?thesis using assms by (simp add: jsIndex_def directions_def)
qed

lemma bearingToDirection_compass:
  assumes "0 \<le> b" and "b < 360"
  shows "bearingToDirection b = Some (compass ! (nat (round (b / 45)) mod 8))"
proof -
  let ?r = "round (b / 45)"
  have r: "0 \<le> ?r" using round_bearing_range [OF assms] by simp
  have j: "jsRemInt ?r 8 = ?r mod 8" using r by (simp add: jsRemInt_def)
  have m: "0 \<le> ?r mod 8" "?r mod 8 < 8" by simp_all
  have n: "nat (?r mod 8) = nat ?r mod 8" using r by (simp add: nat_mod_distrib)
  show ?thesis
    using directions_compass [OF m] by (simp add: bearingToDirection_def Let_def j n)
qed

lemma bearingToDirection_defined:
  "\<exists>dir. bearingToDirection (calculateBearing lat1 lon1 lat2 lon2) = Some dir"
  using bearingToDirection_compass calculateBearing_range by blast

lemma north0: "bearingToDirection 0 = Some ''North''"
  by (simp add: bearingToDirection_def jsRemInt_def jsIndex_def directions_def)

lemma north360: "bearingToDirection 360 = Some ''North''"
  by (simp add: bearingToDirection_def jsRemInt_def jsIndex_def directions_def)

text \<open>
  Claim C9. For all coordinates \<open>calculateBearing\<close> lies in \<open>[0, 360)\<close>. For a bearing in
  \<open>[0, 360)\<close>, \<open>bearingToDirection\<close> is the entry of the eight compass directions at index
  \<open>round (bearing / 45) mod 8\<close>; the bearings 0 and 360 both give North.
\<close>

theorem bearing_range_and_compass:
  "(0 \<le> calculateBearing lat1 lon1 lat2 lon2 \<and> calculateBearing lat1 lon1 lat2 lon2 < 360) \<and>
   (0 \<le> b \<and> b < 360 \<longrightarrow> bearingToDirection b = Some (compass ! (nat (round (b / 45)) mod 8))) \<and>
   bearingToDirection 0 = Some ''North'' \<and> bearingToDirection 360 = Some ''North''"
  using calculateBearing_range bearingToDirection_compass north0 north360 by blast

theorem bearing_range_and_compass_witness:
  "(0::real) \<le> 100 \<and> (100::real) < 360 \<and> bearingToDirection 100 = Some ''East'' \<and>
   0 \<le> calculateBearing 0 0 0 1 \<and> calculateBearing 0 0 0 1 < 360"
proof -
  have r: "round (20 / 9 :: real) = 2" by (simp add: round_def)
  show ?thesis
    using bearing_range_and_compass [of 0 0 0 1 100] by (simp add: r compass_def)
qed

text \<open>
  Claim C5. For every start and end position, and whatever the two random draws, the route
  generator returns a route of exactly six steps; the first and the third step carry the
  distance \<open>round (totalDistance / 3)\<close>, where \<open>totalDistance\<close> is the geodesic distance from
  start to end, and the second, fourth and fifth step carry the distance 0.
\<close>

theorem generateNavigationSteps_shape:
  "\<exists>steps. generateNavigationSteps start end r1 r2 = Some steps \<and> length steps = 6 \<and>
     distance (steps ! 0) = round (calculateDistance (latitude start) (longitude start)
                                      (latitude end) (longitude end) / 3) \<and>
     distance (steps ! 2) = round (calculateDistance (latitude start) (longitude start)
                                      (latitude end) (longitude end) / 3) \<and>
     distance (steps ! 1) = 0 \<and> distance (steps ! 3) = 0 \<and> distance (steps ! 4) = 0"
proof -
  obtain dir where d: "bearingToDirection (calculateBearing (latitude start) (longitude start)
      (latitude end) (longitude end)) = Some dir"
    using bearingToDirection_defined by blast
  show ?thesis by (simp add: generateNavigationSteps_def Let_def d)
qed

section \<open>Properties of the navigation session\<close>

lemma filter_single: "map fst xs = [h] \<Longrightarrow> filter (\<lambda>e. fst e \<noteq> h) xs = []"
  by (cases xs) auto

lemma clearUpdateInterval_effect:
  assumes "map fst (timers s) = handles (updateInterval s)"
  shows "updateInterval (clearUpdateInterval s) = None"
    and "timers (clearUpdateInterval s) = []"
    and "isNavigating (clearUpdateInterval s) = isNavigating s"
    and "watchId (clearUpdateInterval s) = watchId s"
    and "watches (clearUpdateInterval s) = watches s"
    and "currentDestination (clearUpdateInterval s) = currentDestination s"
    and "navigationSteps (clearUpdateInterval s) = navigationSteps s"
    and "spoken (clearUpdateInterval s) = spoken s"
    and "impulses (clearUpdateInterval s) = impulses s"
    and "callbacks (clearUpdateInterval s) = callbacks s"
  using assms
  by (auto simp: clearUpdateInterval_def clearInterval_def handles_def filter_single split: option.splits)

lemma arrive_effect:
  assumes "map fst (timers s) = handles (updateInterval s)"
  shows "\<not> isNavigating (arrive opts dest s)"
    and "updateInterval (arrive opts dest s) = None"
    and "timers (arrive opts dest s) = []"
    and "watchId (arrive opts dest s) = watchId s"
    and "watches (arrive opts dest s) = watches s"
    and "spoken (arrive opts dest s)
           = spoken s @ (if announceOn opts then [''You have arrived at '' @ destName dest] else [])"
    and "impulses (arrive opts dest s)
           = impulses s @ (if hapticOn opts \<and> isEnabled s \<and> \<not> platformWeb s then [Success] else [])"
    and "callbacks (arrive opts dest s) = callbacks s @ (if onArrival opts then [ArrivalCb] else [])"
proof -
  let ?s1 = "s\<lparr> isNavigating := False \<rparr>"
  let ?s2 = "if announceOn opts then speechService_speak (''You have arrived at '' @ destName dest) ?s1 else ?s1"
  let ?s3 = "if hapticOn opts then vibrateArrival ?s2 else ?s2"
  let ?s4 = "if onArrival opts then notify ArrivalCb ?s3 else ?s3"
  have a: "arrive opts dest s = clearUpdateInterval ?s4" by (simp add: arrive_def Let_def)
  have f: "isNavigating ?s4 = False" "updateInterval ?s4 = updateInterval s" "timers ?s4 = timers s"
      "watchId ?s4 = watchId s" "watches ?s4 = watches s"
    by (simp_all add: speechService_speak_def vibrateArrival_def trigger_def notify_def)
  have g: "spoken ?s4 = spoken s @ (if announceOn opts then [''You have arrived at '' @ destName dest] else [])"
      "impulses ?s4 = impulses s @ (if hapticOn opts \<and> isEnabled s \<and> \<not> platformWeb s then [Success] else [])"
      "callbacks ?s4 = callbacks s @ (if onArrival opts then [ArrivalCb] else [])"
    by (simp_all add: speechService_speak_def vibrateArrival_def trigger_def notify_def)
  have t: "map fst (timers ?s4) = handles (updateInterval ?s4)" using assms f by simp
  note c = clearUpdateInterval_effect [OF t]
  show "\<not> isNavigating (arrive opts dest s)" unfolding a using c(3) f(1) by simp
  show "updateInterval (arrive opts dest s) = None" unfolding a using c(1) by simp
  show "timers (arrive opts dest s) = []" unfolding a using c(2) by simp
  show "watchId (arrive opts dest s) = watchId s" unfolding a using c(4) f(4) by simp
  show "watches (arrive opts dest s) = watches s" unfolding a using c(5) f(5) by simp
  show "spoken (arrive opts dest s)
           = spoken s @ (if announceOn opts then [''You have arrived at '' @ destName dest] else [])"
    unfolding a using c(8) g(1) by simp
  show "impulses (arrive opts dest s)
           = impulses s @ (if hapticOn opts \<and> isEnabled s \<and> \<not> platformWeb s then [Success] else [])"
    unfolding a using c(9) g(2) by simp
  show "callbacks (arrive opts dest s) = callbacks s @ (if onArrival opts then [ArrivalCb] else [])"
    unfolding a using c(10) g(3) by simp
qed

lemma startNavigation_unknown:
  assumes "\<not> isNavigating s" and "resolve d = None"
  shows "startNavigation d opts env r1 r2 s =
           (Some False, if onError opts then notify (ErrorCb ''Invalid destination'') s else s)"
  using assms
  by (simp add: startNavigation_def startNavigation_begin_def resolve_def Let_def
        split: destination_ref.splits option.splits)

lemma startNavigation_started:
  assumes "\<not> isNavigating s" and "resolve d = Some target"
      and "getCurrentLocation env s = (Some cur, s1)"
      and "generateNavigationSteps cur (coordinates target) r1 r2 = Some steps"
  shows "startNavigation d opts env r1 r2 s =
           launch opts env target steps
             (s1\<lparr> lastLocation := Some cur, currentDestination := Some target, isNavigating := True \<rparr>)"
  using assms
  by (simp add: startNavigation_def startNavigation_begin_def startNavigation_resume_def resolve_def
        launch_def Let_def split: destination_ref.splits option.splits)

lemma bearing_same: "calculateBearing la lo la lo = 0"
proof -
  have "jsRem 360 360 = 0" by (simp add: jsRem_def trunc_def)
  then show ?thesis by (simp add: calculateBearing_def atan2_def Let_def)
qed

lemma distance_same: "calculateDistance la lo la lo = 0"
  by (simp add: calculateDistance_def)

lemma steps_same:
  "generateNavigationSteps (coords la lo) (coords la lo) 0 0 =
     Some [ \<lparr> stepId = ''step-1'', instruction = ''Head north for 0 meters'',
               distance = 0, direction = Some ''North'', isCompleted = False \<rparr>,
            \<lparr> stepId = ''step-2'', instruction = ''Turn right at the intersection'',
               distance = 0, direction = Some ''Right'', isCompleted = False \<rparr>,
            \<lparr> stepId = ''step-3'', instruction = ''Continue straight for 0 meters'',
               distance = 0, direction = Some ''Straight'', isCompleted = False \<rparr>,
            \<lparr> stepId = ''step-4'', instruction = ''Cross the street at the pedestrian crossing'',
               distance = 0, direction = Some ''Straight'', isCompleted = False \<rparr>,
            \<lparr> stepId = ''step-5'', instruction = ''Turn right after the bus stop'',
               distance = 0, direction = Some ''Right'', isCompleted = False \<rparr>,
            \<lparr> stepId = ''step-6'', instruction = ''Your destination is 0 meters ahead on your right'',
               distance = 0, direction = Some ''Right'', isCompleted = False \<rparr> ]"
  by (simp add: generateNavigationSteps_def coords_def bearing_same distance_same north0 Let_def
        toLowerCase_def lowerChar_def intToString_def natToString.simps digitChar_def
        jsIndex_def turnDirections_def render_def turnLabel_def)

lemma coords_sel [simp]: "latitude (coords la lo) = la" "longitude (coords la lo) = lo"
  by (simp_all add: coords_def)

lemma home_resolved: "resolve (ByString ''home'') = Some home"
  by (simp add: resolve_def getDestinationById_def commonDestinations_def home_def)

lemma located_home:
  "getCurrentLocation atHome (nav_init False)
     = (Some (coordinates home),
        (nav_init False)\<lparr> isPermissionGranted := True, lastKnownLocation := Some (coordinates home) \<rparr>)"
  by (simp add: getCurrentLocation_def requestPermissions_def currentPosition_def atHome_def
        nav_init_def home_def)

lemma steps_home: "generateNavigationSteps (coordinates home) (coordinates home) 0 0 = Some homeSteps"
  by (simp add: home_def steps_same homeSteps_def)

lemmas launch_eval = launch_def NavigationService_startLocationTracking_def
  LocationService_startLocationTracking_def startWatching_def
  LocationService_stopLocationTracking_def notify_def speechService_speak_def trigger_def
  activeHome_def nav_init_def homeSteps_def home_def Let_def

lemma launch_home_quiet:
  "launch quiet atHome home homeSteps
     ((nav_init False)\<lparr> isPermissionGranted := True, lastKnownLocation := Some (coordinates home),
        lastLocation := Some (coordinates home), currentDestination := Some home,
        isNavigating := True \<rparr>)
   = (Some True, activeHome quiet)"
  by (simp add: launch_eval quiet_def)

lemma launch_home_defaults:
  "launch defaults atHome home homeSteps
     ((nav_init False)\<lparr> isPermissionGranted := True, lastKnownLocation := Some (coordinates home),
        lastLocation := Some (coordinates home), currentDestination := Some home,
        isNavigating := True \<rparr>)
   = (Some True, activeHome defaults)"
  by (simp add: launch_eval defaults_def)

lemma start_home:
  "startNavigation (ByString ''home'') quiet atHome 0 0 (nav_init False) = (Some True, activeHome quiet)"
  "startNavigation (ByString ''home'') defaults atHome 0 0 (nav_init False) = (Some True, activeHome defaults)"
proof -
  have n: "\<not> isNavigating (nav_init False)" by (simp add: nav_init_def)
  show "startNavigation (ByString ''home'') quiet atHome 0 0 (nav_init False) = (Some True, activeHome quiet)"
    using startNavigation_started [OF n home_resolved located_home steps_home, of quiet] launch_home_quiet
    by simp
  show "startNavigation (ByString ''home'') defaults atHome 0 0 (nav_init False) = (Some True, activeHome defaults)"
    using startNavigation_started [OF n home_resolved located_home steps_home, of defaults] launch_home_defaults
    by simp
qed

text \<open>
  Claim C4. A call of \<open>startNavigation\<close> in the idle state with a string that is the id of no
  catalog entry and the name of none resolves to \<open>false\<close> and leaves the state as it was (no
  destination, no steps, no timer, no subscription), except that the error callback, when the
  caller supplied one, has been invoked exactly once, with \<open>Invalid destination\<close>.
\<close>

theorem unknown_destination_rejected:
  assumes "\<not> isNavigating s"
      and "getDestinationById str = None" and "getDestinationByName str = None"
  shows "startNavigation (ByString str) opts env r1 r2 s =
           (Some False,
            if onError opts then s\<lparr> callbacks := callbacks s @ [ErrorCb ''Invalid destination''] \<rparr>
            else s)"
proof -
  have "resolve (ByString str) = None" using assms(2,3) by (simp add: resolve_def)
  from startNavigation_unknown [OF assms(1) this] show ?thesis by (simp add: notify_def)
qed

theorem unknown_destination_rejected_witness:
  "\<not> isNavigating (nav_init False) \<and>
   getDestinationById ''museum'' = None \<and> getDestinationByName ''museum'' = None \<and>
   startNavigation (ByString ''museum'') defaults atHome 0 0 (nav_init False) =
     (Some False, (nav_init False)\<lparr> callbacks := [ErrorCb ''Invalid destination''] \<rparr>)"
proof -
  have h1: "\<not> isNavigating (nav_init False)" by (simp add: nav_init_def)
  have h2: "getDestinationById ''museum'' = None"
    by (simp add: getDestinationById_def commonDestinations_def)
  have h3: "getDestinationByName ''museum'' = None"
    by (simp add: getDestinationByName_def commonDestinations_def)
  have c: "callbacks (nav_init False) = []" and e: "onError defaults"
    by (simp_all add: nav_init_def defaults_def)
  show ?thesis
    using unknown_destination_rejected [OF h1 h2 h3, of defaults atHome 0 0] h1 h2 h3 c e by simp
qed

lemma run_start_home:
  "nav_run [StartNavigation (ByString ''home'') quiet atHome 0 0] (nav_init False) = activeHome quiet"
  "nav_run [StartNavigation (ByString ''home'') defaults atHome 0 0] (nav_init False) = activeHome defaults"
  by (simp_all add: nav_run_def start_home)

lemma activeHome_timers: "map fst (timers (activeHome opts)) = handles (updateInterval (activeHome opts))"
  by (simp add: activeHome_def handles_def)

lemma tick_home:
  assumes "distanceThreshold opts = None"
  shows "intervalTick 2 (activeHome opts) = arrive opts home (activeHome opts)"
proof -
  have d: "calculateDistance (latitude (coordinates home)) (longitude (coordinates home))
             (latitude (coordinates home)) (longitude (coordinates home)) = 0"
    by (rule distance_same)
  have f: "map_of (timers (activeHome opts)) 2 = Some opts" "lastLocation (activeHome opts) = Some (coordinates home)"
      "currentDestination (activeHome opts) = Some home" "isNavigating (activeHome opts)"
    by (simp_all add: activeHome_def)
  have "intervalTick 2 (activeHome opts) = progressCheck opts (activeHome opts)"
    using f(1) by (simp add: intervalTick_def)
  also have "\<dots> = arrive opts home (activeHome opts)"
    using f(2,3,4) d assms by (simp add: progressCheck_def thresholdOf_def Let_def)
  finally show ?thesis .
qed

text \<open>
  Claim C2 does not hold as stated. A session to Home is started at Home with announcements
  and haptics switched off in the options; the first tick of the update timer finds the
  distance 0 and ends the session. No arrival announcement and no haptic is emitted (the
  options switch both off), and while the timer is cleared, the location subscription is still
  live: \<open>watchId\<close> is still set, and the next position sample still updates \<open>lastLocation\<close>
  and invokes \<open>onLocationUpdate\<close>.
\<close>

theorem arrival_silent_and_still_subscribed:
  "(let active = nav_run [StartNavigation (ByString ''home'') quiet atHome 0 0] (nav_init False);
        arrived = nav_run [IntervalTick 2] active;
        later = nav_run [LocationSample 1 (coords 10 20)] arrived
    in isNavigating active \<and> map fst (timers active) = [2] \<and> map fst (watches active) = [1] \<and>
       \<not> isNavigating arrived \<and> spoken arrived = [] \<and> impulses arrived = [] \<and>
       timers arrived = [] \<and> watchId arrived = Some 1 \<and> map fst (watches arrived) = [1] \<and>
       lastLocation later = Some (coords 10 20) \<and>
       callbacks later = callbacks arrived @ [LocationUpdateCb (coords 10 20)])"
proof -
  let ?active = "activeHome quiet"
  let ?arrived = "arrive quiet home ?active"
  let ?later = "locationSample 1 (coords 10 20) ?arrived"
  have q: "distanceThreshold quiet = None" "\<not> announceOn quiet" "\<not> hapticOn quiet" "onLocationUpdate quiet"
    by (simp_all add: quiet_def announceOn_def hapticOn_def)
  have a: "isNavigating ?active" "map fst (timers ?active) = [2]" "map fst (watches ?active) = [1]"
      "spoken ?active = []" "impulses ?active = []" "watchId ?active = Some 1"
      "watches ?active = [(1, quiet)]"
    by (simp_all add: activeHome_def quiet_def)
  note e = arrive_effect [OF activeHome_timers [of quiet], of quiet home]
  have b: "\<not> isNavigating ?arrived" "spoken ?arrived = []" "impulses ?arrived = []"
      "timers ?arrived = []" "watchId ?arrived = Some 1" "watches ?arrived = [(1, quiet)]"
    using e a q by simp_all
  have c: "lastLocation ?later = Some (coords 10 20)"
      "callbacks ?later = callbacks ?arrived @ [LocationUpdateCb (coords 10 20)]"
    using b(6) q(4) by (simp_all add: locationSample_def Let_def)
  have r1: "nav_run [StartNavigation (ByString ''home'') quiet atHome 0 0] (nav_init False) = ?active"
    by (rule run_start_home(1))
  have r2: "nav_run [IntervalTick 2] ?active = ?arrived"
    using tick_home [OF q(1)] by (simp add: nav_run_def)
  have r3: "nav_run [LocationSample 1 (coords 10 20)] ?arrived = ?later"
    by (simp add: nav_run_def)
  show ?thesis
    unfolding Let_def r1 r2 r3 using a(1,2,3) b c by simp
qed

text \<open>
  Claim C2, amended. When the update timer of an active session fires with the last known
  position within the threshold of the destination (10 m unless the options say otherwise),
  the session leaves the active state; the arrival announcement is spoken once unless
  \<open>announceSteps\<close> is false; the success haptic is requested once unless \<open>hapticFeedback\<close>
  is false, haptics are disabled or the platform is the web; \<open>onArrival\<close> is invoked once when
  supplied; and the update timer is cleared, so that no timer tick does anything afterwards.
\<close>

theorem arrival_on_tick:
  assumes "isNavigating s" and "lastLocation s = Some loc" and "currentDestination s = Some dest"
      and "updateInterval s = Some h" and "timers s = [(h, opts)]"
      and "calculateDistance (latitude loc) (longitude loc)
             (latitude (coordinates dest)) (longitude (coordinates dest))
           \<le> (case distanceThreshold opts of None \<Rightarrow> 10 | Some t \<Rightarrow> t)"
  shows "(let s' = intervalTick h s in
            \<not> isNavigating s' \<and>
            spoken s' = spoken s @ (if announceSteps opts = Some False then []
                                    else [''You have arrived at '' @ destName dest]) \<and>
            impulses s' = impulses s @ (if hapticFeedback opts = Some False \<or> \<not> isEnabled s \<or> platformWeb s
                                        then [] else [Success]) \<and>
            callbacks s' = callbacks s @ (if onArrival opts then [ArrivalCb] else []) \<and>
            updateInterval s' = None \<and> timers s' = [] \<and>
            (\<forall>k. intervalTick k s' = s'))"
proof -
  have t: "map fst (timers s) = handles (updateInterval s)"
    using assms(4,5) by (simp add: handles_def)
  have tick: "intervalTick h s = arrive opts dest s"
    using assms by (simp add: intervalTick_def progressCheck_def thresholdOf_def Let_def)
  have an: "announceOn opts = (announceSteps opts \<noteq> Some False)"
    by (cases "announceSteps opts") (auto simp: announceOn_def)
  have ha: "hapticOn opts = (hapticFeedback opts \<noteq> Some False)"
    by (cases "hapticFeedback opts") (auto simp: hapticOn_def)
  note e = arrive_effect [OF t, of opts dest]
  have none: "\<forall>k. intervalTick k (arrive opts dest s) = arrive opts dest s"
    using e(3) by (simp add: intervalTick_def)
  show ?thesis
    unfolding tick Let_def using e none by (auto simp: an ha)
qed

theorem arrival_on_tick_witness:
  "(let active = snd (startNavigation (ByString ''home'') defaults atHome 0 0 (nav_init False));
        arrived = intervalTick 2 active
    in isNavigating active \<and> updateInterval active = Some 2 \<and> timers active = [(2, defaults)] \<and>
       \<not> isNavigating arrived \<and>
       spoken arrived = spoken active @ [''You have arrived at Home''] \<and>
       impulses arrived = impulses active @ [Success] \<and>
       callbacks arrived = callbacks active @ [ArrivalCb] \<and>
       updateInterval arrived = None \<and> timers arrived = [] \<and>
       intervalTick 2 arrived = arrived)"
proof -
  let ?active = "activeHome defaults"
  have s: "snd (startNavigation (ByString ''home'') defaults atHome 0 0 (nav_init False)) = ?active"
    by (simp add: start_home)
  have h1: "isNavigating ?active" by (simp add: activeHome_def)
  have h2: "lastLocation ?active = Some (coordinates home)" by (simp add: activeHome_def)
  have h3: "currentDestination ?active = Some home" by (simp add: activeHome_def)
  have h4: "updateInterval ?active = Some 2" by (simp add: activeHome_def)
  have h5: "timers ?active = [(2, defaults)]" by (simp add: activeHome_def)
  have h6: "calculateDistance (latitude (coordinates home)) (longitude (coordinates home))
              (latitude (coordinates home)) (longitude (coordinates home))
            \<le> (case distanceThreshold defaults of None \<Rightarrow> 10 | Some t \<Rightarrow> t)"
    by (simp add: distance_same defaults_def)
  have o: "announceSteps defaults = None" "hapticFeedback defaults = None" "onArrival defaults"
    by (simp_all add: defaults_def)
  have w: "isEnabled ?active" "\<not> platformWeb ?active" by (simp_all add: activeHome_def)
  have n: "destName home = ''Home''" by (simp add: home_def)
  show ?thesis
    unfolding s using arrival_on_tick [OF h1 h2 h3 h4 h5 h6] h1 h4 h5 o w n by (simp add: Let_def)
qed

text \<open>
  Claim C10, evaluated on the code. A session to Home is active, so \<open>watchId\<close> holds what
  \<open>watchPositionAsync\<close> returned. \<open>startNavigation\<close> is called for the park: it calls
  \<open>stopNavigation\<close>, which clears the flag, the destination, the steps and the update timer
  and then throws in \<open>stopLocationTracking\<close>. The promise of \<open>startNavigation\<close> rejects: the
  location tracking of the old session is not cleared (\<open>watchId\<close> and the subscription are
  still there), and no new session is created.
\<close>

theorem restart_rejects_and_keeps_tracking:
  "(let s = nav_run [StartNavigation (ByString ''home'') defaults atHome 0 0] (nav_init False);
        restart = startNavigation (ByString ''park'') defaults atHome 0 0 s
    in isNavigating s \<and> watchId s = Some 1 \<and>
       fst (stopNavigation s) = Some TypeError \<and>
       fst restart = None \<and>
       \<not> isNavigating (snd restart) \<and> currentDestination (snd restart) = None \<and>
       navigationSteps (snd restart) = [] \<and>
       updateInterval (snd restart) = None \<and> timers (snd restart) = [] \<and>
       watchId (snd restart) = Some 1 \<and> map fst (watches (snd restart)) = [1])"
proof -
  let ?active = "activeHome defaults"
  have run: "nav_run [StartNavigation (ByString ''home'') defaults atHome 0 0] (nav_init False) = ?active"
    by (rule run_start_home(2))
  have a: "isNavigating ?active" "watchId ?active = Some 1"
    by (simp_all add: activeHome_def)
  have st: "fst (stopNavigation ?active) = Some TypeError"
      "\<not> isNavigating (snd (stopNavigation ?active))"
      "currentDestination (snd (stopNavigation ?active)) = None"
      "navigationSteps (snd (stopNavigation ?active)) = []"
      "updateInterval (snd (stopNavigation ?active)) = None"
      "timers (snd (stopNavigation ?active)) = []"
      "watchId (snd (stopNavigation ?active)) = Some 1"
      "map fst (watches (snd (stopNavigation ?active))) = [1]"
    by (simp_all add: stopNavigation_def clearUpdateInterval_def clearInterval_def
          LocationService_stopLocationTracking_def activeHome_def Let_def)
  have r: "startNavigation (ByString ''park'') defaults atHome 0 0 ?active
             = (None, snd (stopNavigation ?active))"
    using a(1) st(1)
    by (cases "stopNavigation ?active") (simp add: startNavigation_def startNavigation_begin_def)
  show ?thesis
    unfolding Let_def run r using a st by simp
qed

section \<open>Properties of the detection pipeline\<close>

lemma coco_length: "length COCO_LABELS = 80"
  by (simp add: COCO_LABELS_def)

lemma coco_person: "COCO_LABELS ! 0 = ''person''"
  by (simp add: COCO_LABELS_def)

lemmas det_eval = detectFrame_def detectFrame_start_def detectFrame_finish_def processImage_def detectionAt_def frame_def detection_ready_def
  jsIndex_def coco_length coco_person Let_def

text \<open>
  Claim C6, evaluated on the code. \<open>detectFrame\<close> receives \<open>confidenceThreshold\<close> and
  \<open>maxDetections\<close> and uses neither: \<open>processImage\<close> keeps a prediction when its score is
  above the constant 0.5. With \<open>maxDetections = 1\<close> two objects are emitted; with the threshold
  0.85 the object of score 0.8 is emitted; with the threshold 0.5 a prediction of score
  exactly 0.5 is dropped. The example of the claim (scores 0.9 and 0.4, threshold 0.5) does
  give one object.
\<close>

theorem configured_threshold_and_cap_ignored:
  "map (map confidence)
     (batches (detectFrame True True 0.5 3000 1 True True (frame 5000 [0.9, 0.8] [0, 16]) detection_ready))
     = [[0.9, 0.8]] \<and>
   map (map confidence)
     (emitted (detectFrame True True 0.85 3000 5 True True (frame 5000 [0.9, 0.8] [0, 16]) detection_ready))
     = [[0.9, 0.8]] \<and>
   batches (detectFrame True True 0.5 3000 5 True True (frame 5000 [0.5] [0]) detection_ready) = [[]] \<and>
   map (map confidence)
     (batches (detectFrame True True 0.5 3000 5 True True (frame 5000 [0.9, 0.4] [0, 16]) detection_ready))
     = [[0.9]]"
  by (simp add: det_eval upt_rec)

text \<open>
  Claim C8, evaluated on the code. Two detections of the label \<open>person\<close> built within the
  same millisecond get the same id, label and clock reading: the ids of the batch are not
  distinct.
\<close>

theorem same_label_same_id:
  "map (map objId)
     (batches (detectFrame True True 0.5 3000 5 True True (frame 5000 [0.9, 0.8] [0, 0]) detection_ready))
     = [[''person-1700000000000'', ''person-1700000000000'']] \<and>
   \<not> distinct (map objId (last
     (batches (detectFrame True True 0.5 3000 5 True True (frame 5000 [0.9, 0.8] [0, 0]) detection_ready))))"
  by (simp add: det_eval upt_rec render_def intToString_def natToString.simps digitChar_def)

text \<open>
  Claim C7 does not hold as stated, in either direction. \<open>startDetectionProcess\<close> stores the
  current time in \<open>lastFrameTime\<close> and triggers \<open>detectFrame\<close> at once; with an interval of
  200 ms the timer triggers it again 200 ms later. Both triggers come before the floor of
  1000 ms has passed and both are skipped: no cycle is performed. And when a trigger passes
  the floor and the next one fires 200 ms later, while the first still waits for its picture
  and inference, \<open>lastFrameTime\<close> is still the old one, the second passes the floor too, and two
  cycles are performed.
\<close>

theorem two_triggers_no_cycle_or_two:
  "cycles (detectFrame True True 0.5 200 5 True True (frame 5200 [0.9] [0])
            (startDetectionProcess True True 0.5 200 5 True True 5000 (frame 5000 [0.9] [0]) detection_ready))
     = 0 \<and>
   (let first = detectFrame_start 5000 detection_ready;
        second = detectFrame_start 5200 (snd first);
        s3 = detectFrame_finish True True 0.5 200 5 True True 5000 (frame 5000 [0.9] [0]) (snd second);
        s4 = detectFrame_finish True True 0.5 200 5 True True 5200 (frame 5200 [0.9] [0]) s3
    in fst first \<and> fst second \<and> cycles s4 = 2 \<and> pictures s4 = 2)"
  by (simp add: startDetectionProcess_def detectFrame_def detectFrame_start_def detectFrame_finish_def
        frame_def detection_ready_def Let_def)

text \<open>
  Claim C7, amended. Of two triggers less than the floor \<open>frameInterval\<close> apart of which the
  first passes the floor, captures a frame and has finished when the second fires, exactly
  one performs a cycle: the first one does, and the second is skipped and leaves the state as
  it is (it is not queued).
\<close>

theorem second_trigger_within_floor_skipped:
  assumes "frameInterval s \<le> now e1 - lastFrameTime s"
      and "picture e1 = Some uri"
      and "now e2 - now e1 < frameInterval s"
  shows "cycles (detectFrame onDet onErr th iv mx ann hap e1 s) = cycles s + 1 \<and>
         pictures (detectFrame onDet onErr th iv mx ann hap e1 s) = pictures s + 1 \<and>
         detectFrame onDet onErr th iv mx ann hap e2 (detectFrame onDet onErr th iv mx ann hap e1 s)
           = detectFrame onDet onErr th iv mx ann hap e1 s"
proof -
  let ?s1 = "detectFrame onDet onErr th iv mx ann hap e1 s"
  have passed: "\<not> now e1 - lastFrameTime s < frameInterval s" using assms(1) by simp
  have l: "lastFrameTime ?s1 = now e1" and f: "frameInterval ?s1 = frameInterval s"
    and c: "cycles ?s1 = cycles s + 1" and p: "pictures ?s1 = pictures s + 1"
    using passed assms(2) by (simp_all add: detectFrame_def detectFrame_start_def detectFrame_finish_def Let_def)
  have "now e2 - lastFrameTime ?s1 < frameInterval ?s1" using assms(3) l f by simp
  then have "detectFrame onDet onErr th iv mx ann hap e2 ?s1 = ?s1"
    by (simp add: detectFrame_def [of _ _ _ _ _ _ _ e2] detectFrame_start_def)
  then show ?thesis using c p by simp
qed

theorem second_trigger_within_floor_skipped_witness:
  "frameInterval detection_ready \<le> now (frame 5000 [0.9] [0]) - lastFrameTime detection_ready \<and>
   picture (frame 5000 [0.9] [0]) = Some ''file:///frame.jpg'' \<and>
   now (frame 5200 [0.9] [0]) - now (frame 5000 [0.9] [0]) < frameInterval detection_ready \<and>
   cycles (detectFrame True True 0.5 200 5 True True (frame 5200 [0.9] [0])
            (detectFrame True True 0.5 200 5 True True (frame 5000 [0.9] [0]) detection_ready)) = 1"
proof -
  have h1: "frameInterval detection_ready \<le> now (frame 5000 [0.9] [0]) - lastFrameTime detection_ready"
    by (simp add: frame_def detection_ready_def)
  have h2: "picture (frame 5000 [0.9] [0]) = Some ''file:///frame.jpg''" by (simp add: frame_def)
  have h3: "now (frame 5200 [0.9] [0]) - now (frame 5000 [0.9] [0]) < frameInterval detection_ready"
    by (simp add: frame_def detection_ready_def)
  have z: "cycles detection_ready = 0" by (simp add: detection_ready_def)
  show ?thesis
    using second_trigger_within_floor_skipped [OF h1 h2 h3, of True True "0.5" 200 5 True True] h1 h2 h3 z
    by simp
qed

end
